theory Spec2Isabelle
  imports Main "HOL-Library.AList" "HOL-Library.Word"
begin

section \<open>Python values, objects and the store\<close>

text \<open>
  The module \<^verbatim>\<open>nbdev_example/core.py\<close> holds one function:
  \<^verbatim>\<open>
  def generate_crd(config:dict={}):
      game = {}
      game['parameters'] = {}
      game['parameters']['n'] = config.get('n', 2)
      game['parameters']['b'] = config.get('b', 1)
      game['parameters']['d'] = config.get('d', -10)
      game['parameters']['pr'] = config.get('pr', 0.5)
      return game
  \<close>
  Dictionaries are mutable objects with identity, and the default argument is one
  dictionary created when the \<^verbatim>\<open>def\<close> statement runs. The model therefore keeps an
  explicit store: a value is an immediate (None, bool, int, float, str) or a reference
  to an object of the store; an object is a dictionary or a list. A float is carried
  as its IEEE 754 binary64 bit pattern: the function never computes with it.
\<close>

type_synonym addr = nat

datatype pyval =
    PyNone
  | PyBool bool
  | PyInt int
  | PyFloat "64 word"
  | PyStr string
  | PyRef addr

text \<open>
  A dictionary is its list of items in insertion order, with distinct keys. The
  function only ever looks up and stores string keys, and a string key is equal to no
  value but the same string, so key comparison is equality of \<^typ>\<open>pyval\<close>.
\<close>

datatype pyobj =
    DictObj "(pyval \<times> pyval) list"
  | ListObj "pyval list"

datatype pyerr = AttributeError | KeyError | TypeError

text \<open>
  The store is the list of all objects allocated so far, an address is an index into
  it, and allocation appends. \<open>crd_defaults\<close> is the address of the dictionary held in
  \<^verbatim>\<open>generate_crd.__defaults__\<close>.
\<close>

record pystate =
  heap :: "pyobj list"
  crd_defaults :: addr

text \<open>The literals \<^verbatim>\<open>0.5\<close> and \<^verbatim>\<open>0.9\<close> as binary64 bit patterns.\<close>

definition float_0_5 :: pyval where
  "float_0_5 = PyFloat 0x3FE0000000000000"

definition float_0_9 :: pyval where
  "float_0_9 = PyFloat 0x3FECCCCCCCCCCCCD"

text \<open>
  \<open>dict_at h v\<close> is the address and the items of the dictionary that \<open>v\<close> refers to,
  and \<open>None\<close> when \<open>v\<close> is not a reference to a dictionary of the store.
\<close>

definition dict_at :: "pyobj list \<Rightarrow> pyval \<Rightarrow> (addr \<times> (pyval \<times> pyval) list) option" where
  "dict_at h v =
     (case v of
        PyRef a \<Rightarrow>
          (if a < length h
           then (case h ! a of DictObj kvs \<Rightarrow> Some (a, kvs) | ListObj xs \<Rightarrow> None)
           else None)
      | _ \<Rightarrow> None)"

text \<open>Allocation of a new object; \<open>new_dict\<close> is the display \<^verbatim>\<open>{}\<close>.\<close>

definition new_obj :: "pyobj \<Rightarrow> pystate \<Rightarrow> pyval \<times> pystate" where
  "new_obj ob s = (PyRef (length (heap s)), s\<lparr>heap := heap s @ [ob]\<rparr>)"

definition new_dict :: "pystate \<Rightarrow> pyval \<times> pystate" where
  "new_dict = new_obj (DictObj [])"

text \<open>
  \<^verbatim>\<open>recv.get(k, dflt)\<close>: only a dictionary has the method; on any other receiver the
  attribute lookup raises AttributeError.
\<close>

definition dict_get :: "pyval \<Rightarrow> pyval \<Rightarrow> pyval \<Rightarrow> pystate \<Rightarrow> pyerr + pyval" where
  "dict_get recv k dflt s =
     (case dict_at (heap s) recv of
        Some (a, kvs) \<Rightarrow> Inr (case map_of kvs k of Some x \<Rightarrow> x | None \<Rightarrow> dflt)
      | None \<Rightarrow> Inl AttributeError)"

text \<open>\<^verbatim>\<open>recv[k]\<close> with a string key.\<close>

definition getitem :: "pyval \<Rightarrow> pyval \<Rightarrow> pystate \<Rightarrow> pyerr + pyval" where
  "getitem recv k s =
     (case dict_at (heap s) recv of
        Some (a, kvs) \<Rightarrow> (case map_of kvs k of Some x \<Rightarrow> Inr x | None \<Rightarrow> Inl KeyError)
      | None \<Rightarrow> Inl TypeError)"

text \<open>
  \<^verbatim>\<open>recv[k] = x\<close> with a string key: the dictionary object is updated in place (an
  existing key keeps its position, a new key goes last).
\<close>

definition setitem :: "pyval \<Rightarrow> pyval \<Rightarrow> pyval \<Rightarrow> pystate \<Rightarrow> pyerr option \<times> pystate" where
  "setitem recv k x s =
     (case dict_at (heap s) recv of
        Some (a, kvs) \<Rightarrow>
          (None, s\<lparr>heap := (heap s)[a := DictObj (AList.update k x kvs)]\<rparr>)
      | None \<Rightarrow> (Some TypeError, s))"

text \<open>A block of statements runs in order and stops at the first exception.\<close>

fun exec_seq :: "(pystate \<Rightarrow> pyerr option \<times> pystate) list \<Rightarrow> pystate \<Rightarrow> pyerr option \<times> pystate" where
  "exec_seq [] s = (None, s)"
| "exec_seq (c # cs) s =
     (case c s of
        (None, s') \<Rightarrow> exec_seq cs s'
      | (Some e, s') \<Rightarrow> (Some e, s'))"

section \<open>The function\<close>

text \<open>
  The statement \<^verbatim>\<open>game['parameters'][k] = config.get(k, dflt)\<close>: the right-hand side
  is evaluated first, then the target \<^verbatim>\<open>game['parameters']\<close>, then the store.
\<close>

definition assign_param :: "pyval \<Rightarrow> pyval \<Rightarrow> string \<Rightarrow> pyval \<Rightarrow> pystate \<Rightarrow> pyerr option \<times> pystate" where
  "assign_param game config k dflt s =
     (case dict_get config (PyStr k) dflt s of
        Inl e \<Rightarrow> (Some e, s)
      | Inr x \<Rightarrow>
          (case getitem game (PyStr ''parameters'') s of
             Inl e \<Rightarrow> (Some e, s)
           | Inr params \<Rightarrow> setitem params (PyStr k) x s))"

text \<open>The statement \<^verbatim>\<open>game['parameters'] = {}\<close>.\<close>

definition assign_parameters :: "pyval \<Rightarrow> pystate \<Rightarrow> pyerr option \<times> pystate" where
  "assign_parameters game s =
     (case new_dict s of (params, s') \<Rightarrow> setitem game (PyStr ''parameters'') params s')"

text \<open>
  \<open>generate_crd arg s\<close> is the call: \<open>arg = None\<close> when the caller passes no argument,
  and \<open>config\<close> is then bound to the dictionary of \<^verbatim>\<open>__defaults__\<close>. The result is the
  returned value or the exception raised, with the store after the call.
\<close>

definition generate_crd :: "pyval option \<Rightarrow> pystate \<Rightarrow> (pyerr + pyval) \<times> pystate" where
  "generate_crd arg s =
     (let config = (case arg of Some v \<Rightarrow> v | None \<Rightarrow> PyRef (crd_defaults s))
      in case new_dict s of
        (game, s1) \<Rightarrow>
          (case exec_seq
              [assign_parameters game,
               assign_param game config ''n'' (PyInt 2),
               assign_param game config ''b'' (PyInt 1),
               assign_param game config ''d'' (PyInt (- 10)),
               assign_param game config ''pr'' float_0_5] s1 of
             (None, s2) \<Rightarrow> (Inr game, s2)
           | (Some e, s2) \<Rightarrow> (Inl e, s2)))"

section \<open>Callers\<close>

text \<open>
  Importing the module runs the \<^verbatim>\<open>def\<close> statement, which evaluates the default
  \<^verbatim>\<open>{}\<close> once and keeps it in the function object.
\<close>

definition import_core :: "pyobj list \<Rightarrow> pystate" where
  "import_core h = \<lparr>heap = h @ [DictObj []], crd_defaults = length h\<rparr>"

text \<open>
  A dictionary display \<^verbatim>\<open>{k1: v1, ...}\<close> stores its items from left to right, and
  \<open>generate_crd_display kvs\<close> is the call \<^verbatim>\<open>generate_crd({k1: v1, ...})\<close>.
\<close>

definition dict_display :: "(pyval \<times> pyval) list \<Rightarrow> pystate \<Rightarrow> pyval \<times> pystate" where
  "dict_display kvs = new_obj (DictObj (fold (\<lambda>(k, v). AList.update k v) kvs []))"

definition generate_crd_display :: "(pyval \<times> pyval) list \<Rightarrow> pystate \<Rightarrow> (pyerr + pyval) \<times> pystate" where
  "generate_crd_display kvs s =
     (case dict_display kvs s of (c, s') \<Rightarrow> generate_crd (Some c) s')"

text \<open>A caller that calls the function once per element of \<open>args\<close>, whatever it raises.\<close>

fun calls :: "pyval option list \<Rightarrow> pystate \<Rightarrow> pystate" where
  "calls [] s = s"
| "calls (a # as) s = calls as (snd (generate_crd a s))"

section \<open>Observing a result\<close>

text \<open>
  \<open>returned_model r\<close> reads the outcome \<open>r\<close> of a call as the nested mapping it denotes:
  \<open>Some (k, ps)\<close> when the call returned a dictionary with the single key \<open>k\<close> whose value
  is a dictionary with the items \<open>ps\<close>, that is \<^verbatim>\<open>{k: {ps}}\<close>.
\<close>

definition returned_model :: "(pyerr + pyval) \<times> pystate \<Rightarrow> (pyval \<times> (pyval \<times> pyval) list) option" where
  "returned_model r =
     (case r of
        (Inr v, s) \<Rightarrow>
          (case dict_at (heap s) v of
             Some (a, [(k, pv)]) \<Rightarrow>
               (case dict_at (heap s) pv of Some (b, ps) \<Rightarrow> Some (k, ps) | None \<Rightarrow> None)
           | _ \<Rightarrow> None)
      | (Inl e, s) \<Rightarrow> None)"

text \<open>The recognised keys with their defaults, and the model made of the defaults only.\<close>

definition crd_keys :: "(string \<times> pyval) list" where
  "crd_keys = [(''n'', PyInt 2), (''b'', PyInt 1), (''d'', PyInt (- 10)), (''pr'', float_0_5)]"

definition default_model :: "pyval \<times> (pyval \<times> pyval) list" where
  "default_model =
     (PyStr ''parameters'',
      [(PyStr ''n'', PyInt 2), (PyStr ''b'', PyInt 1), (PyStr ''d'', PyInt (- 10)),
       (PyStr ''pr'', float_0_5)])"

text \<open>
  The objects a value can reach through references: what a caller holding the value
  can observe and mutate.
\<close>

fun refs_of :: "pyobj \<Rightarrow> pyval list" where
  "refs_of (DictObj kvs) = map fst kvs @ map snd kvs"
| "refs_of (ListObj xs) = xs"

inductive reaches :: "pyobj list \<Rightarrow> pyval \<Rightarrow> addr \<Rightarrow> bool" for h :: "pyobj list" where
  reaches_here: "a < length h \<Longrightarrow> reaches h (PyRef a) a"
| reaches_step: "a < length h \<Longrightarrow> v \<in> set (refs_of (h ! a)) \<Longrightarrow> reaches h v b \<Longrightarrow> reaches h (PyRef a) b"

text \<open>A store is closed when every reference held by one of its objects is allocated.\<close>

definition ref_ok :: "nat \<Rightarrow> pyval \<Rightarrow> bool" where
  "ref_ok n v = (case v of PyRef a \<Rightarrow> a < n | _ \<Rightarrow> True)"

definition heap_closed :: "pyobj list \<Rightarrow> bool" where
  "heap_closed h = list_all (\<lambda>ob. list_all (ref_ok (length h)) (refs_of ob)) h"

text \<open>
  A store in which the dictionary at address 1 is \<^verbatim>\<open>{'n': xs}\<close> for the list \<open>xs\<close> at
  address 0, right after the import.
\<close>

definition example_store :: pystate where
  "example_store = import_core [ListObj [], DictObj [(PyStr ''n'', PyRef 0)]]"

section \<open>What one call does\<close>

text \<open>
  \<open>merged kvs\<close> is the parameters mapping that the four assignments build from an
  argument with the items \<open>kvs\<close>, and \<open>built n kvs\<close> the two objects that a call
  allocates at the addresses \<open>n\<close> and \<open>n + 1\<close>.
\<close>

definition merged :: "(pyval \<times> pyval) list \<Rightarrow> (pyval \<times> pyval) list" where
  "merged kvs =
     map (\<lambda>(k, dflt). (PyStr k, case map_of kvs (PyStr k) of Some x \<Rightarrow> x | None \<Rightarrow> dflt)) crd_keys"

definition built :: "nat \<Rightarrow> (pyval \<times> pyval) list \<Rightarrow> pyobj list" where
  "built n kvs = [DictObj [(PyStr ''parameters'', PyRef (Suc n))], DictObj (merged kvs)]"

text \<open>
  What a call leaves of the store it started in: two more objects, every earlier
  object as it was, and the same default dictionary.
\<close>

definition frame :: "pystate \<Rightarrow> pystate \<Rightarrow> bool" where
  "frame s s' \<longleftrightarrow>
     length (heap s') = length (heap s) + 2 \<and> take (length (heap s)) (heap s') = heap s \<and>
     crd_defaults s' = crd_defaults s"

lemma dict_at_append:
  "dict_at h v = Some r \<Longrightarrow> dict_at (h @ h') v = Some r"
  by (auto simp: dict_at_def nth_append split: pyval.splits if_splits pyobj.splits)

lemma dict_at_bound:
  "dict_at h v = Some (a, kvs) \<Longrightarrow> a < length h \<and> v = PyRef a \<and> h ! a = DictObj kvs"
  by (auto simp: dict_at_def split: pyval.splits if_splits pyobj.splits)

lemma generate_crd_on_dict:
  assumes "dict_at (heap s) c = Some (a, kvs)"
  shows "generate_crd (Some c) s =
           (Inr (PyRef (length (heap s))), s\<lparr>heap := heap s @ built (length (heap s)) kvs\<rparr>)"
proof -
  from dict_at_bound [OF assms] have a: "a < length (heap s)" and c: "c = PyRef a"
    and h: "heap s ! a = DictObj kvs" by auto
  show ?thesis
    unfolding generate_crd_def new_dict_def new_obj_def assign_parameters_def
      assign_param_def setitem_def getitem_def dict_get_def built_def merged_def crd_keys_def c
    using a h
    by (simp add: dict_at_def nth_append list_update_append)
qed

lemma generate_crd_no_arg:
  "generate_crd None s = generate_crd (Some (PyRef (crd_defaults s))) s"
  by (simp add: generate_crd_def)

lemma generate_crd_not_dict:
  assumes "dict_at (heap s) c = None" and "ref_ok (length (heap s)) c"
  shows "generate_crd (Some c) s =
           (Inl AttributeError,
            s\<lparr>heap := heap s @
               [DictObj [(PyStr ''parameters'', PyRef (Suc (length (heap s))))], DictObj []]\<rparr>)"
  using assms
  unfolding generate_crd_def new_dict_def new_obj_def assign_parameters_def
    assign_param_def setitem_def getitem_def dict_get_def
  by (auto simp add: dict_at_def ref_ok_def nth_append list_update_append
        split: pyval.splits pyobj.splits if_splits)

text \<open>
  No Python value is a reference to an object that does not exist yet; the model has
  such values, and a call is framed on them too.
\<close>

lemma generate_crd_dangling:
  assumes "\<not> ref_ok (length (heap s)) c"
  shows "frame s (snd (generate_crd (Some c) s))"
proof -
  from assms obtain a where c: "c = PyRef a" and a: "length (heap s) \<le> a"
    by (auto simp: ref_ok_def split: pyval.splits)
  consider "a = length (heap s)" | "a = Suc (length (heap s))" | "Suc (length (heap s)) < a"
    using a by linarith
  then show ?thesis
  proof cases
    case 1
    then show ?thesis
      unfolding generate_crd_def new_dict_def new_obj_def assign_parameters_def
        assign_param_def setitem_def getitem_def dict_get_def c
      by (simp add: dict_at_def nth_append list_update_append frame_def)
  next
    case 2
    then show ?thesis
      unfolding generate_crd_def new_dict_def new_obj_def assign_parameters_def
        assign_param_def setitem_def getitem_def dict_get_def c
      by (simp add: dict_at_def nth_append list_update_append frame_def)
  next
    case 3
    then show ?thesis
      unfolding generate_crd_def new_dict_def new_obj_def assign_parameters_def
        assign_param_def setitem_def getitem_def dict_get_def c
      by (simp add: dict_at_def nth_append list_update_append frame_def)
  qed
qed

lemma generate_crd_frame: "frame s (snd (generate_crd arg s))"
proof -
  have some: "frame s (snd (generate_crd (Some c) s))" for c
  proof (cases "ref_ok (length (heap s)) c")
    case False
    then show ?thesis by (rule generate_crd_dangling)
  next
    case True
    show ?thesis
    proof (cases "dict_at (heap s) c")
      case None
      from generate_crd_not_dict [OF None True] show ?thesis by (simp add: frame_def)
    next
      case (Some r)
      then obtain a kvs where "dict_at (heap s) c = Some (a, kvs)" by (cases r) auto
      from generate_crd_on_dict [OF this] show ?thesis by (simp add: built_def frame_def)
    qed
  qed
  show ?thesis
  proof (cases arg)
    case None
    then show ?thesis using some [of "PyRef (crd_defaults s)"] by (simp add: generate_crd_no_arg)
  next
    case (Some c)
    then show ?thesis using some [of c] by simp
  qed
qed

lemma returned_model_on_dict:
  "dict_at (heap s) c = Some (a, kvs) \<Longrightarrow>
   returned_model (generate_crd (Some c) s) = Some (PyStr ''parameters'', merged kvs)"
  by (simp add: generate_crd_on_dict returned_model_def built_def dict_at_def nth_append)

lemma generate_crd_display_eq:
  "generate_crd_display kvs s =
     generate_crd (Some (PyRef (length (heap s))))
       (s\<lparr>heap := heap s @ [DictObj (fold (\<lambda>(k, v). AList.update k v) kvs [])]\<rparr>)"
  by (simp add: generate_crd_display_def dict_display_def new_obj_def)

lemma returned_model_display:
  "returned_model (generate_crd_display kvs s) =
     Some (PyStr ''parameters'', merged (fold (\<lambda>(k, v). AList.update k v) kvs []))"
  unfolding generate_crd_display_eq
  by (rule returned_model_on_dict) (simp add: dict_at_def)

lemma merged_keys:
  "map fst (merged kvs) = [PyStr ''n'', PyStr ''b'', PyStr ''d'', PyStr ''pr'']"
  by (simp add: merged_def crd_keys_def)

lemma map_of_merged:
  "(k, dflt) \<in> set crd_keys \<Longrightarrow>
   map_of (merged kvs) (PyStr k) = Some (case map_of kvs (PyStr k) of Some x \<Rightarrow> x | None \<Rightarrow> dflt)"
  by (auto simp: merged_def crd_keys_def)

lemma merged_cong:
  "(\<forall>k \<in> fst ` set crd_keys. map_of kvs (PyStr k) = map_of kvs' (PyStr k)) \<Longrightarrow>
   merged kvs = merged kvs'"
  by (simp add: merged_def crd_keys_def)

lemma merged_empty: "merged [] = snd default_model"
  by (simp add: merged_def crd_keys_def default_model_def)

lemma frame_dict_at:
  "frame s s' \<Longrightarrow> dict_at (heap s) v = Some r \<Longrightarrow> dict_at (heap s') v = Some r"
proof -
  assume f: "frame s s'" and d: "dict_at (heap s) v = Some r"
  from f have "heap s' = heap s @ drop (length (heap s)) (heap s')"
    by (metis append_take_drop_id frame_def)
  with dict_at_append [OF d] show ?thesis by metis
qed

lemma calls_frame:
  "length (heap s) \<le> length (heap (calls args s)) \<and>
   take (length (heap s)) (heap (calls args s)) = heap s \<and>
   crd_defaults (calls args s) = crd_defaults s"
proof (induction args arbitrary: s)
  case Nil
  show ?case by simp
next
  case (Cons a args)
  let ?s1 = "snd (generate_crd a s)"
  have f: "frame s ?s1" by (rule generate_crd_frame)
  from Cons.IH [of ?s1]
  have len: "length (heap ?s1) \<le> length (heap (calls args ?s1))"
    and tk: "take (length (heap ?s1)) (heap (calls args ?s1)) = heap ?s1"
    and df: "crd_defaults (calls args ?s1) = crd_defaults ?s1" by auto
  from f have l1: "length (heap s) \<le> length (heap ?s1)"
    and t1: "take (length (heap s)) (heap ?s1) = heap s"
    and d1: "crd_defaults ?s1 = crd_defaults s" by (auto simp: frame_def)
  have "take (length (heap s)) (heap (calls args ?s1)) =
          take (length (heap s)) (take (length (heap ?s1)) (heap (calls args ?s1)))"
    using l1 by (simp add: min_def)
  also have "\<dots> = heap s" using tk t1 by simp
  finally show ?case using len l1 df d1 by simp
qed

lemma take_dict_at:
  assumes "take n h' = h" and "dict_at h v = Some r"
  shows "dict_at h' v = Some r"
proof -
  have "h' = h @ drop n h'" using assms(1) by (metis append_take_drop_id)
  with dict_at_append [OF assms(2)] show ?thesis by metis
qed

text \<open>
  Reachability: a value that reaches an object is a reference; in a closed store, what an
  old value reaches stays the same when objects are appended; and a returned model
  reaches its two dictionaries and what the values of the parameters reach.
\<close>

lemma reaches_is_ref: "reaches h v b \<Longrightarrow> \<exists>a. v = PyRef a \<and> a < length h"
  by (erule reaches.cases) auto

lemma heap_closed_ref:
  "heap_closed h \<Longrightarrow> a < length h \<Longrightarrow> v \<in> set (refs_of (h ! a)) \<Longrightarrow> ref_ok (length h) v"
  by (auto simp: heap_closed_def list_all_iff)

lemma reaches_old:
  assumes "heap_closed h"
  shows "reaches (h @ h') v b \<Longrightarrow> ref_ok (length h) v \<Longrightarrow> reaches h v b \<and> b < length h"
proof (induction rule: reaches.induct)
  case (reaches_here a)
  then have "a < length h" by (simp add: ref_ok_def)
  then show ?case by (simp add: reaches.reaches_here)
next
  case (reaches_step a v b)
  then have a: "a < length h" by (simp add: ref_ok_def)
  with reaches_step have v: "v \<in> set (refs_of (h ! a))" by (simp add: nth_append)
  from heap_closed_ref [OF assms a v] have "ref_ok (length h) v" .
  with reaches_step.IH have "reaches h v b \<and> b < length h" by simp
  with a v show ?case by (auto intro: reaches.reaches_step)
qed

lemma reaches_model:
  assumes "H ! g = DictObj [(PyStr ''parameters'', PyRef q)]" and "H ! q = DictObj ps"
    and "reaches H (PyRef g) b"
  shows "b = g \<or> b = q \<or> (\<exists>v \<in> set (refs_of (DictObj ps)). reaches H v b)"
  using assms(3)
proof (cases rule: reaches.cases)
  case reaches_here
  then show ?thesis by simp
next
  case (reaches_step v)
  with assms(1) have "v = PyStr ''parameters'' \<or> v = PyRef q" by auto
  with reaches_step reaches_is_ref [of H v b] have q: "reaches H (PyRef q) b" by auto
  then show ?thesis
  proof (cases rule: reaches.cases)
    case reaches_here
    then show ?thesis by simp
  next
    case (reaches_step w)
    with assms(2) show ?thesis by auto
  qed
qed

lemma merged_value:
  assumes "v \<in> set (refs_of (DictObj (merged kvs)))" and "v = PyRef c"
  shows "\<exists>(k, dflt) \<in> set crd_keys. map_of kvs (PyStr k) = Some v"
  using assms
  by (auto simp: merged_def crd_keys_def float_0_5_def split: option.splits)

lemma reaches_result:
  assumes closed: "heap_closed h" and p: "dict_at h p = Some (a, kvs)"
    and g: "(h @ h') ! g = DictObj [(PyStr ''parameters'', PyRef q)]"
    and q: "(h @ h') ! q = DictObj (merged kvs)"
    and r: "reaches (h @ h') (PyRef g) b"
  shows "b = g \<or> b = q \<or>
         (b < length h \<and>
          (\<exists>(k, dflt) \<in> set crd_keys. \<exists>x. map_of kvs (PyStr k) = Some x \<and> reaches h x b))"
proof -
  from reaches_model [OF g q r]
  consider "b = g" | "b = q"
    | v where "v \<in> set (refs_of (DictObj (merged kvs)))" and "reaches (h @ h') v b"
    by blast
  then show ?thesis
  proof cases
    case 3
    from reaches_is_ref [OF 3(2)] obtain c where c: "v = PyRef c" by blast
    from merged_value [OF 3(1) c] obtain k dflt
      where k: "(k, dflt) \<in> set crd_keys" and m: "map_of kvs (PyStr k) = Some v" by blast
    from dict_at_bound [OF p] have a: "a < length h" and ha: "h ! a = DictObj kvs" by auto
    from m have "(PyStr k, v) \<in> set kvs" by (rule map_of_SomeD)
    then have "v \<in> set (refs_of (h ! a))" using ha by force
    from heap_closed_ref [OF closed a this] have "ref_ok (length h) v" .
    from reaches_old [OF closed 3(2) this] have "reaches h v b" and "b < length h" by auto
    with k m show ?thesis by blast
  qed auto
qed

section \<open>The claims\<close>

text \<open>
  C1. For every argument \<open>p\<close> that is a dictionary and every recognised key \<open>k\<close> of
  \<open>n\<close>, \<open>b\<close>, \<open>d\<close>, \<open>pr\<close>, the call returns a model whose parameters mapping
  holds, at \<open>k\<close>, the very value \<open>p[k]\<close> when \<open>k\<close> is a key of \<open>p\<close>, and the default of
  \<open>k\<close> (2, 1, -10, 0.5) otherwise. In particular \<^verbatim>\<open>generate_crd({'n': 5})\<close> is
  \<^verbatim>\<open>{'parameters': {'n': 5, 'b': 1, 'd': -10, 'pr': 0.5}}\<close> and
  \<^verbatim>\<open>generate_crd({'n': 5, 'b': 2, 'd': 0, 'pr': 0.9})\<close> is
  \<^verbatim>\<open>{'parameters': {'n': 5, 'b': 2, 'd': 0, 'pr': 0.9}}\<close>, in every store.
\<close>

theorem generate_crd_merges:
  assumes "dict_at (heap s) p = Some (a, kvs)"
  shows "(\<exists>ps. returned_model (generate_crd (Some p) s) = Some (PyStr ''parameters'', ps) \<and>
            (\<forall>(k, dflt) \<in> set crd_keys.
               map_of ps (PyStr k) =
                 Some (case map_of kvs (PyStr k) of Some x \<Rightarrow> x | None \<Rightarrow> dflt))) \<and>
         returned_model (generate_crd_display [(PyStr ''n'', PyInt 5)] s') =
           Some (PyStr ''parameters'',
                 [(PyStr ''n'', PyInt 5), (PyStr ''b'', PyInt 1), (PyStr ''d'', PyInt (- 10)),
                  (PyStr ''pr'', float_0_5)]) \<and>
         returned_model
           (generate_crd_display
              [(PyStr ''n'', PyInt 5), (PyStr ''b'', PyInt 2), (PyStr ''d'', PyInt 0),
               (PyStr ''pr'', float_0_9)] s') =
           Some (PyStr ''parameters'',
                 [(PyStr ''n'', PyInt 5), (PyStr ''b'', PyInt 2), (PyStr ''d'', PyInt 0),
                  (PyStr ''pr'', float_0_9)])"
proof (intro conjI)
  show "\<exists>ps. returned_model (generate_crd (Some p) s) = Some (PyStr ''parameters'', ps) \<and>
            (\<forall>(k, dflt) \<in> set crd_keys.
               map_of ps (PyStr k) =
                 Some (case map_of kvs (PyStr k) of Some x \<Rightarrow> x | None \<Rightarrow> dflt))"
    using returned_model_on_dict [OF assms] map_of_merged [of _ _ kvs] by blast
next
  show "returned_model (generate_crd_display [(PyStr ''n'', PyInt 5)] s') =
           Some (PyStr ''parameters'',
                 [(PyStr ''n'', PyInt 5), (PyStr ''b'', PyInt 1), (PyStr ''d'', PyInt (- 10)),
                  (PyStr ''pr'', float_0_5)])"
    by (simp add: returned_model_display merged_def crd_keys_def)
next
  show "returned_model
           (generate_crd_display
              [(PyStr ''n'', PyInt 5), (PyStr ''b'', PyInt 2), (PyStr ''d'', PyInt 0),
               (PyStr ''pr'', float_0_9)] s') =
           Some (PyStr ''parameters'',
                 [(PyStr ''n'', PyInt 5), (PyStr ''b'', PyInt 2), (PyStr ''d'', PyInt 0),
                  (PyStr ''pr'', float_0_9)])"
    by (simp add: returned_model_display merged_def crd_keys_def)
qed

theorem generate_crd_merges_witness:
  "dict_at (heap (import_core [DictObj [(PyStr ''b'', PyNone)]])) (PyRef 0) =
     Some (0, [(PyStr ''b'', PyNone)]) \<and>
   (\<exists>ps. returned_model
           (generate_crd (Some (PyRef 0)) (import_core [DictObj [(PyStr ''b'', PyNone)]])) =
          Some (PyStr ''parameters'', ps) \<and>
         map_of ps (PyStr ''b'') = Some PyNone \<and> map_of ps (PyStr ''n'') = Some (PyInt 2))"
proof -
  have h: "dict_at (heap (import_core [DictObj [(PyStr ''b'', PyNone)]])) (PyRef 0) =
     Some (0, [(PyStr ''b'', PyNone)])"
    by (simp add: dict_at_def import_core_def)
  from generate_crd_merges [OF h] h show ?thesis
    by (auto simp: crd_keys_def)
qed

text \<open>
  C2. Whatever keys the argument \<open>p\<close> has, the parameters mapping of the returned model
  has exactly the four keys \<open>n\<close>, \<open>b\<close>, \<open>d\<close>, \<open>pr\<close>, each of them once. Any other key
  of \<open>p\<close> is ignored: two arguments that agree on the four keys give the same model, and
  \<^verbatim>\<open>generate_crd({'extra_key': 'ignored'})\<close> is \<^verbatim>\<open>generate_crd({})\<close>.
\<close>

theorem generate_crd_keys:
  assumes "dict_at (heap s) p = Some (a, kvs)"
  shows "(\<exists>ps. returned_model (generate_crd (Some p) s) = Some (PyStr ''parameters'', ps) \<and>
            map fst ps = [PyStr ''n'', PyStr ''b'', PyStr ''d'', PyStr ''pr'']) \<and>
         (dict_at (heap s') p' = Some (a', kvs') \<and>
          (\<forall>k \<in> fst ` set crd_keys. map_of kvs' (PyStr k) = map_of kvs (PyStr k)) \<longrightarrow>
            returned_model (generate_crd (Some p') s') =
              returned_model (generate_crd (Some p) s)) \<and>
         returned_model (generate_crd_display [(PyStr ''extra_key'', PyStr ''ignored'')] s'') =
           returned_model (generate_crd_display [] s'')"
proof (intro conjI impI)
  show "\<exists>ps. returned_model (generate_crd (Some p) s) = Some (PyStr ''parameters'', ps) \<and>
            map fst ps = [PyStr ''n'', PyStr ''b'', PyStr ''d'', PyStr ''pr'']"
    using returned_model_on_dict [OF assms] merged_keys by blast
next
  assume h: "dict_at (heap s') p' = Some (a', kvs') \<and>
          (\<forall>k \<in> fst ` set crd_keys. map_of kvs' (PyStr k) = map_of kvs (PyStr k))"
  then have "merged kvs' = merged kvs" by (intro merged_cong) simp
  with h show "returned_model (generate_crd (Some p') s') =
              returned_model (generate_crd (Some p) s)"
    by (simp add: returned_model_on_dict [OF assms] returned_model_on_dict [of s' p' a' kvs'])
next
  show "returned_model (generate_crd_display [(PyStr ''extra_key'', PyStr ''ignored'')] s'') =
           returned_model (generate_crd_display [] s'')"
    by (simp add: returned_model_display merged_def crd_keys_def)
qed

theorem generate_crd_keys_witness:
  "dict_at (heap (import_core [DictObj [(PyStr ''n'', PyInt 5), (PyInt 7, PyStr ''x'')], DictObj [(PyStr ''n'', PyInt 5)]])) (PyRef 0) =
     Some (0, [(PyStr ''n'', PyInt 5), (PyInt 7, PyStr ''x'')]) \<and>
   dict_at (heap (import_core [DictObj [(PyStr ''n'', PyInt 5), (PyInt 7, PyStr ''x'')], DictObj [(PyStr ''n'', PyInt 5)]])) (PyRef 1) =
     Some (1, [(PyStr ''n'', PyInt 5)]) \<and>
   (\<exists>ps. returned_model
           (generate_crd (Some (PyRef 0))
              (import_core [DictObj [(PyStr ''n'', PyInt 5), (PyInt 7, PyStr ''x'')], DictObj [(PyStr ''n'', PyInt 5)]])) =
          Some (PyStr ''parameters'', ps) \<and>
         map fst ps = [PyStr ''n'', PyStr ''b'', PyStr ''d'', PyStr ''pr'']) \<and>
   returned_model
     (generate_crd (Some (PyRef 1))
        (import_core [DictObj [(PyStr ''n'', PyInt 5), (PyInt 7, PyStr ''x'')], DictObj [(PyStr ''n'', PyInt 5)]])) =
   returned_model
     (generate_crd (Some (PyRef 0))
        (import_core [DictObj [(PyStr ''n'', PyInt 5), (PyInt 7, PyStr ''x'')], DictObj [(PyStr ''n'', PyInt 5)]]))"
proof -
  let ?s = "import_core [DictObj [(PyStr ''n'', PyInt 5), (PyInt 7, PyStr ''x'')], DictObj [(PyStr ''n'', PyInt 5)]]"
  have h0: "dict_at (heap ?s) (PyRef 0) = Some (0, [(PyStr ''n'', PyInt 5), (PyInt 7, PyStr ''x'')])"
    by (simp add: dict_at_def import_core_def)
  have h1: "dict_at (heap ?s) (PyRef 1) = Some (1, [(PyStr ''n'', PyInt 5)])"
    by (simp add: dict_at_def import_core_def)
  have agree: "\<forall>k \<in> fst ` set crd_keys.
      map_of [(PyStr ''n'', PyInt 5)] (PyStr k) =
      map_of [(PyStr ''n'', PyInt 5), (PyInt 7, PyStr ''x'')] (PyStr k)"
    by (simp add: crd_keys_def)
  from generate_crd_keys [OF h0, of ?s "PyRef 1" 1 "[(PyStr ''n'', PyInt 5)]"] h0 h1 agree
  show ?thesis by blast
qed

text \<open>
  C3. With the default dictionary as the \<^verbatim>\<open>def\<close> statement made it (empty), the call
  with no argument and the call \<^verbatim>\<open>generate_crd({})\<close> return the same model, the one made
  of the four defaults: \<^verbatim>\<open>{'parameters': {'n': 2, 'b': 1, 'd': -10, 'pr': 0.5}}\<close>.
\<close>

theorem generate_crd_omitted_argument:
  assumes "dict_at (heap s) (PyRef (crd_defaults s)) = Some (crd_defaults s, [])"
  shows "returned_model (generate_crd None s) = Some default_model \<and>
         returned_model (generate_crd_display [] s) = Some default_model"
  using returned_model_on_dict [OF assms]
  by (simp add: generate_crd_no_arg returned_model_display merged_empty default_model_def
        merged_def crd_keys_def)

theorem generate_crd_omitted_argument_witness:
  "dict_at (heap (import_core [])) (PyRef (crd_defaults (import_core []))) =
     Some (crd_defaults (import_core []), []) \<and>
   returned_model (generate_crd None (import_core [])) = Some default_model \<and>
   returned_model (generate_crd_display [] (import_core [])) = Some default_model"
proof -
  have h: "dict_at (heap (import_core [])) (PyRef (crd_defaults (import_core []))) =
     Some (crd_defaults (import_core []), [])"
    by (simp add: dict_at_def import_core_def)
  from generate_crd_omitted_argument [OF h] h show ?thesis by simp
qed

text \<open>
  C4, as stated, says that \<^verbatim>\<open>generate_crd(None)\<close> returns the fully defaulted model, as
  the call with no argument does. It does not: \<^verbatim>\<open>None\<close> has no method \<^verbatim>\<open>get\<close>, so the
  first \<^verbatim>\<open>config.get\<close> raises AttributeError. Right after the import:
\<close>

theorem generate_crd_None_counterexample:
  "fst (generate_crd (Some PyNone) (import_core [])) = Inl AttributeError \<and>
   returned_model (generate_crd (Some PyNone) (import_core [])) \<noteq>
     returned_model (generate_crd None (import_core []))"
proof -
  have d: "dict_at (heap (import_core [])) (PyRef (crd_defaults (import_core []))) =
     Some (crd_defaults (import_core []), [])"
    by (simp add: dict_at_def import_core_def)
  have n: "generate_crd (Some PyNone) (import_core []) =
      (Inl AttributeError,
       (import_core [])\<lparr>heap := heap (import_core []) @
          [DictObj [(PyStr ''parameters'', PyRef (Suc (length (heap (import_core [])))))],
           DictObj []]\<rparr>)"
    by (rule generate_crd_not_dict) (simp_all add: dict_at_def ref_ok_def)
  show ?thesis
    using returned_model_on_dict [OF d]
    by (simp add: n generate_crd_no_arg returned_model_def)
qed

text \<open>
  C4, amended. A call with no argument behaves as the call with an empty mapping: both
  return the fully defaulted model (the default dictionary being empty, as the \<^verbatim>\<open>def\<close>
  statement made it). \<^verbatim>\<open>None\<close> is not taken for an empty mapping: in every store
  \<^verbatim>\<open>generate_crd(None)\<close> raises AttributeError.
\<close>

theorem generate_crd_absent_or_None:
  assumes "dict_at (heap s) (PyRef (crd_defaults s)) = Some (crd_defaults s, [])"
  shows "returned_model (generate_crd None s) = returned_model (generate_crd_display [] s) \<and>
         returned_model (generate_crd None s) = Some default_model \<and>
         fst (generate_crd (Some PyNone) s') = Inl AttributeError"
proof -
  have "generate_crd (Some PyNone) s' =
      (Inl AttributeError,
       s'\<lparr>heap := heap s' @
          [DictObj [(PyStr ''parameters'', PyRef (Suc (length (heap s'))))], DictObj []]\<rparr>)"
    by (rule generate_crd_not_dict) (simp_all add: dict_at_def ref_ok_def)
  then show ?thesis
    using returned_model_on_dict [OF assms]
    by (simp add: generate_crd_no_arg returned_model_display merged_empty default_model_def
        merged_def crd_keys_def)
qed

theorem generate_crd_absent_or_None_witness:
  "dict_at (heap (import_core [ListObj []])) (PyRef (crd_defaults (import_core [ListObj []]))) =
     Some (crd_defaults (import_core [ListObj []]), []) \<and>
   returned_model (generate_crd None (import_core [ListObj []])) = Some default_model \<and>
   fst (generate_crd (Some PyNone) (import_core [ListObj []])) = Inl AttributeError"
proof -
  have h: "dict_at (heap (import_core [ListObj []])) (PyRef (crd_defaults (import_core [ListObj []]))) =
     Some (crd_defaults (import_core [ListObj []]), [])"
    by (simp add: dict_at_def import_core_def)
  from generate_crd_absent_or_None [OF h, of "import_core [ListObj []]"] h show ?thesis by blast
qed

text \<open>
  C5. The call never fails on a mapping: when \<open>config\<close> (the argument, or the default
  dictionary when there is none) is a dictionary, whatever its keys and whatever the
  values stored under them, the call returns a value, and the value is a model.
\<close>

theorem generate_crd_never_fails:
  assumes "dict_at (heap s) (case arg of Some v \<Rightarrow> v | None \<Rightarrow> PyRef (crd_defaults s)) = Some (a, kvs)"
  shows "\<exists>v s' ps. generate_crd arg s = (Inr v, s') \<and>
           returned_model (Inr v, s') = Some (PyStr ''parameters'', ps)"
proof (cases arg)
  case None
  with assms have d: "dict_at (heap s) (PyRef (crd_defaults s)) = Some (a, kvs)" by simp
  from generate_crd_on_dict [OF d] returned_model_on_dict [OF d] None show ?thesis
    by (simp add: generate_crd_no_arg)
next
  case (Some c)
  with assms have d: "dict_at (heap s) c = Some (a, kvs)" by simp
  from generate_crd_on_dict [OF d] returned_model_on_dict [OF d] Some show ?thesis
    by simp
qed

theorem generate_crd_never_fails_witness:
  "dict_at (heap (import_core [ListObj [PyNone], DictObj [(PyStr ''n'', PyRef 0), (PyBool True, PyStr ''pr'')]]))
      (case Some (PyRef 1) of Some v \<Rightarrow> v | None \<Rightarrow> PyRef 2) =
     Some (1, [(PyStr ''n'', PyRef 0), (PyBool True, PyStr ''pr'')]) \<and>
   (\<exists>v s' ps.
      generate_crd (Some (PyRef 1))
        (import_core [ListObj [PyNone], DictObj [(PyStr ''n'', PyRef 0), (PyBool True, PyStr ''pr'')]]) =
        (Inr v, s') \<and>
      returned_model (Inr v, s') = Some (PyStr ''parameters'', ps))"
proof -
  let ?s = "import_core [ListObj [PyNone], DictObj [(PyStr ''n'', PyRef 0), (PyBool True, PyStr ''pr'')]]"
  have h: "dict_at (heap ?s) (case Some (PyRef 1) of Some v \<Rightarrow> v | None \<Rightarrow> PyRef (crd_defaults ?s)) =
     Some (1, [(PyStr ''n'', PyRef 0), (PyBool True, PyStr ''pr'')])"
    by (simp add: dict_at_def import_core_def)
  from generate_crd_never_fails [OF h] h show ?thesis by simp
qed

text \<open>
  C6. A call has no effect but the allocation of its result: the argument \<open>p\<close> refers to
  the same dictionary with the same items after the call, every object that existed
  before the call is as it was, and the default dictionary is the same object. The store
  is all the state there is: the function body calls nothing that reads or writes
  anything else.
\<close>

theorem generate_crd_pure:
  assumes "dict_at (heap s) p = Some (a, kvs)"
  shows "dict_at (heap (snd (generate_crd (Some p) s))) p = Some (a, kvs) \<and>
         take (length (heap s)) (heap (snd (generate_crd (Some p) s))) = heap s \<and>
         crd_defaults (snd (generate_crd (Some p) s)) = crd_defaults s"
proof -
  have f: "frame s (snd (generate_crd (Some p) s))" by (rule generate_crd_frame)
  from frame_dict_at [OF f assms] f show ?thesis by (simp add: frame_def)
qed

theorem generate_crd_pure_witness:
  "dict_at (heap (import_core [DictObj [(PyStr ''n'', PyInt 5)]])) (PyRef 0) =
     Some (0, [(PyStr ''n'', PyInt 5)]) \<and>
   dict_at (heap (snd (generate_crd (Some (PyRef 0)) (import_core [DictObj [(PyStr ''n'', PyInt 5)]]))))
     (PyRef 0) = Some (0, [(PyStr ''n'', PyInt 5)]) \<and>
   take (length (heap (import_core [DictObj [(PyStr ''n'', PyInt 5)]])))
     (heap (snd (generate_crd (Some (PyRef 0)) (import_core [DictObj [(PyStr ''n'', PyInt 5)]])))) =
     heap (import_core [DictObj [(PyStr ''n'', PyInt 5)]])"
proof -
  have h: "dict_at (heap (import_core [DictObj [(PyStr ''n'', PyInt 5)]])) (PyRef 0) =
     Some (0, [(PyStr ''n'', PyInt 5)])"
    by (simp add: dict_at_def import_core_def)
  from generate_crd_pure [OF h] h show ?thesis by blast
qed

text \<open>
  C7, as stated, says that the outputs of two calls on the same argument share no
  mutable state. They do when the argument stores a mutable object under a recognised
  key, since the value is passed through by reference: with the argument
  \<^verbatim>\<open>{'n': xs}\<close> of \<open>example_store\<close>, the models returned by two calls (at the
  addresses 3 and 5) both reach the list \<open>xs\<close> at address 0.
\<close>

theorem generate_crd_twice_counterexample:
  "fst (generate_crd (Some (PyRef 1)) example_store) = Inr (PyRef 3) \<and>
   fst (generate_crd (Some (PyRef 1)) (snd (generate_crd (Some (PyRef 1)) example_store))) =
     Inr (PyRef 5) \<and>
   heap (snd (generate_crd (Some (PyRef 1)) (snd (generate_crd (Some (PyRef 1)) example_store)))) ! 0 =
     ListObj [] \<and>
   reaches
     (heap (snd (generate_crd (Some (PyRef 1)) (snd (generate_crd (Some (PyRef 1)) example_store)))))
     (PyRef 3) 0 \<and>
   reaches
     (heap (snd (generate_crd (Some (PyRef 1)) (snd (generate_crd (Some (PyRef 1)) example_store)))))
     (PyRef 5) 0"
proof -
  let ?kvs = "[(PyStr ''n'', PyRef 0)]"
  let ?h0 = "[ListObj [], DictObj ?kvs, DictObj []]"
  let ?h1 = "?h0 @ [DictObj [(PyStr ''parameters'', PyRef 4)], DictObj (merged ?kvs)]"
  let ?h2 = "?h1 @ [DictObj [(PyStr ''parameters'', PyRef 6)], DictObj (merged ?kvs)]"
  have e: "example_store = \<lparr>heap = ?h0, crd_defaults = 2\<rparr>"
    by (simp add: example_store_def import_core_def)
  have d0: "dict_at (heap \<lparr>heap = ?h0, crd_defaults = 2\<rparr>) (PyRef 1) = Some (1, ?kvs)"
    by (simp add: dict_at_def)
  have c1: "generate_crd (Some (PyRef 1)) example_store =
              (Inr (PyRef 3), \<lparr>heap = ?h1, crd_defaults = 2\<rparr>)"
    using generate_crd_on_dict [OF d0] by (simp add: e built_def)
  have d1: "dict_at (heap \<lparr>heap = ?h1, crd_defaults = 2\<rparr>) (PyRef 1) = Some (1, ?kvs)"
    by (simp add: dict_at_def)
  have c2: "generate_crd (Some (PyRef 1)) \<lparr>heap = ?h1, crd_defaults = 2\<rparr> =
              (Inr (PyRef 5), \<lparr>heap = ?h2, crd_defaults = 2\<rparr>)"
    using generate_crd_on_dict [OF d1] by (simp add: built_def)
  have l: "reaches ?h2 (PyRef 0) 0"
    by (rule reaches.reaches_here) simp
  have q3: "reaches ?h2 (PyRef 4) 0"
    by (rule reaches.reaches_step [OF _ _ l]) (simp_all add: merged_def crd_keys_def)
  have q5: "reaches ?h2 (PyRef 6) 0"
    by (rule reaches.reaches_step [OF _ _ l]) (simp_all add: merged_def crd_keys_def)
  have g3: "reaches ?h2 (PyRef 3) 0"
    by (rule reaches.reaches_step [OF _ _ q3]) simp_all
  have g5: "reaches ?h2 (PyRef 5) 0"
    by (rule reaches.reaches_step [OF _ _ q5]) simp_all
  have z: "?h2 ! 0 = ListObj []" by simp
  show ?thesis
    unfolding c1 c2 fst_conv snd_conv pystate.simps using g3 g5 z by blast
qed

text \<open>
  C7, amended. The function is deterministic: two calls on the same dictionary \<open>p\<close>
  return structurally equal models, and the first one is still that model after the
  second call. The two model dictionaries and the two parameters dictionaries are four
  distinct objects, none of which existed before the calls. Values are passed through by
  reference: an object that both outputs reach existed before the calls and is reached
  from a value that \<open>p\<close> stores under a recognised key; so when \<open>p\<close> stores no reference
  under the recognised keys (numbers, strings, \<^verbatim>\<open>None\<close>), the outputs share nothing.
\<close>

theorem generate_crd_twice:
  assumes closed: "heap_closed (heap s)" and p: "dict_at (heap s) p = Some (a, kvs)"
  shows "\<exists>g1 q1 s1 g2 q2 s2.
           generate_crd (Some p) s = (Inr (PyRef g1), s1) \<and>
           generate_crd (Some p) s1 = (Inr (PyRef g2), s2) \<and>
           returned_model (Inr (PyRef g1), s1) = Some (PyStr ''parameters'', merged kvs) \<and>
           returned_model (Inr (PyRef g1), s2) = Some (PyStr ''parameters'', merged kvs) \<and>
           returned_model (Inr (PyRef g2), s2) = Some (PyStr ''parameters'', merged kvs) \<and>
           dict_at (heap s2) (PyRef g1) = Some (g1, [(PyStr ''parameters'', PyRef q1)]) \<and>
           dict_at (heap s2) (PyRef g2) = Some (g2, [(PyStr ''parameters'', PyRef q2)]) \<and>
           distinct [g1, q1, g2, q2] \<and>
           length (heap s) \<le> Min {g1, q1, g2, q2} \<and>
           (\<forall>b. reaches (heap s2) (PyRef g1) b \<and> reaches (heap s2) (PyRef g2) b \<longrightarrow>
              b < length (heap s) \<and>
              (\<exists>(k, dflt) \<in> set crd_keys. \<exists>x.
                 map_of kvs (PyStr k) = Some x \<and> reaches (heap s) x b)) \<and>
           ((\<forall>(k, dflt) \<in> set crd_keys. \<forall>c. map_of kvs (PyStr k) \<noteq> Some (PyRef c)) \<longrightarrow>
              (\<forall>b. \<not> (reaches (heap s2) (PyRef g1) b \<and> reaches (heap s2) (PyRef g2) b)))"
proof -
  define n where "n = length (heap s)"
  define s1 where "s1 = s\<lparr>heap := heap s @ built n kvs\<rparr>"
  define s2 where "s2 = s1\<lparr>heap := heap s1 @ built (n + 2) kvs\<rparr>"
  have c1: "generate_crd (Some p) s = (Inr (PyRef n), s1)"
    using generate_crd_on_dict [OF p] by (simp add: n_def s1_def)
  have l1: "length (heap s1) = n + 2" by (simp add: s1_def n_def built_def)
  have p1: "dict_at (heap s1) p = Some (a, kvs)"
    using dict_at_append [OF p] by (simp add: s1_def)
  have c2: "generate_crd (Some p) s1 = (Inr (PyRef (n + 2)), s2)"
    using generate_crd_on_dict [OF p1] by (simp add: l1 s2_def)
  have H: "heap s2 = heap s @ (built n kvs @ built (n + 2) kvs)"
    by (simp add: s2_def s1_def)
  have at: "heap s2 ! n = DictObj [(PyStr ''parameters'', PyRef (n + 1))]"
    "heap s2 ! (n + 1) = DictObj (merged kvs)"
    "heap s2 ! (n + 2) = DictObj [(PyStr ''parameters'', PyRef (n + 3))]"
    "heap s2 ! (n + 3) = DictObj (merged kvs)"
    "length (heap s2) = n + 4"
    by (simp_all add: H n_def built_def nth_append)
  have m1: "returned_model (Inr (PyRef n), s1) = Some (PyStr ''parameters'', merged kvs)"
    using returned_model_on_dict [OF p] by (simp add: c1)
  have m2: "returned_model (Inr (PyRef (n + 2)), s2) = Some (PyStr ''parameters'', merged kvs)"
    using returned_model_on_dict [OF p1] by (simp add: c2)
  have m12: "returned_model (Inr (PyRef n), s2) = Some (PyStr ''parameters'', merged kvs)"
    using at by (simp add: returned_model_def dict_at_def)
  have shared: "b < length (heap s) \<and>
      (\<exists>(k, dflt) \<in> set crd_keys. \<exists>x. map_of kvs (PyStr k) = Some x \<and> reaches (heap s) x b)"
    if r: "reaches (heap s2) (PyRef n) b \<and> reaches (heap s2) (PyRef (n + 2)) b" for b
  proof -
    from r have r1: "reaches (heap s @ (built n kvs @ built (n + 2) kvs)) (PyRef n) b"
      and r2: "reaches (heap s @ (built n kvs @ built (n + 2) kvs)) (PyRef (n + 2)) b"
      by (simp_all add: H)
    from reaches_result [OF closed p at(1) [unfolded H] _ r1] at(2) [unfolded H]
    have a1: "b = n \<or> b = n + 1 \<or>
         (b < length (heap s) \<and>
          (\<exists>(k, dflt) \<in> set crd_keys. \<exists>x. map_of kvs (PyStr k) = Some x \<and> reaches (heap s) x b))"
      by simp
    from reaches_result [OF closed p at(3) [unfolded H] _ r2] at(4) [unfolded H]
    have a2: "b = n + 2 \<or> b = n + 3 \<or>
         (b < length (heap s) \<and>
          (\<exists>(k, dflt) \<in> set crd_keys. \<exists>x. map_of kvs (PyStr k) = Some x \<and> reaches (heap s) x b))"
      by simp
    from a1 a2 show ?thesis unfolding n_def by auto
  qed
  have none: "\<not> (reaches (heap s2) (PyRef n) b \<and> reaches (heap s2) (PyRef (n + 2)) b)"
    if imm: "\<forall>(k, dflt) \<in> set crd_keys. \<forall>c. map_of kvs (PyStr k) \<noteq> Some (PyRef c)" for b
  proof
    assume "reaches (heap s2) (PyRef n) b \<and> reaches (heap s2) (PyRef (n + 2)) b"
    from shared [OF this] obtain k dflt x where k: "(k, dflt) \<in> set crd_keys"
      and m: "map_of kvs (PyStr k) = Some x" and x: "reaches (heap s) x b" by blast
    from reaches_is_ref [OF x] obtain c where "x = PyRef c" by blast
    with imm k m show False by blast
  qed
  have fresh: "distinct [n, n + 1, n + 2, n + 3]" "length (heap s) \<le> Min {n, n + 1, n + 2, n + 3}"
    by (simp_all add: n_def)
  have da: "dict_at (heap s2) (PyRef n) = Some (n, [(PyStr ''parameters'', PyRef (n + 1))])"
    "dict_at (heap s2) (PyRef (n + 2)) = Some (n + 2, [(PyStr ''parameters'', PyRef (n + 3))])"
    using at by (simp_all add: dict_at_def)
  show ?thesis
    apply (rule exI [of _ n], rule exI [of _ "n + 1"], rule exI [of _ s1])
    apply (rule exI [of _ "n + 2"], rule exI [of _ "n + 3"], rule exI [of _ s2])
    using c1 c2 m1 m12 m2 da fresh shared none by blast
qed

theorem generate_crd_twice_witness:
  "heap_closed (heap (import_core [DictObj [(PyStr ''n'', PyInt 5)]])) \<and>
   dict_at (heap (import_core [DictObj [(PyStr ''n'', PyInt 5)]])) (PyRef 0) =
     Some (0, [(PyStr ''n'', PyInt 5)]) \<and>
   (\<exists>g1 s1 g2 s2.
      generate_crd (Some (PyRef 0)) (import_core [DictObj [(PyStr ''n'', PyInt 5)]]) =
        (Inr (PyRef g1), s1) \<and>
      generate_crd (Some (PyRef 0)) s1 = (Inr (PyRef g2), s2) \<and>
      returned_model (Inr (PyRef g1), s2) = returned_model (Inr (PyRef g2), s2) \<and>
      g1 \<noteq> g2 \<and>
      (\<forall>b. \<not> (reaches (heap s2) (PyRef g1) b \<and> reaches (heap s2) (PyRef g2) b)))"
proof -
  let ?s = "import_core [DictObj [(PyStr ''n'', PyInt 5)]]"
  let ?kvs = "[(PyStr ''n'', PyInt 5)]"
  have c: "heap_closed (heap ?s)"
    by (simp add: heap_closed_def import_core_def ref_ok_def)
  have d: "dict_at (heap ?s) (PyRef 0) = Some (0, ?kvs)"
    by (simp add: dict_at_def import_core_def)
  have i: "\<forall>(k, dflt) \<in> set crd_keys. \<forall>c. map_of ?kvs (PyStr k) \<noteq> Some (PyRef c)"
    by (simp add: crd_keys_def)
  from generate_crd_twice [OF c d] obtain g1 q1 s1 g2 q2 s2 where
    c1: "generate_crd (Some (PyRef 0)) ?s = (Inr (PyRef g1), s1)" and
    c2: "generate_crd (Some (PyRef 0)) s1 = (Inr (PyRef g2), s2)" and
    m1: "returned_model (Inr (PyRef g1), s2) = Some (PyStr ''parameters'', merged ?kvs)" and
    m2: "returned_model (Inr (PyRef g2), s2) = Some (PyStr ''parameters'', merged ?kvs)" and
    ds: "distinct [g1, q1, g2, q2]" and
    im: "(\<forall>(k, dflt) \<in> set crd_keys. \<forall>c. map_of ?kvs (PyStr k) \<noteq> Some (PyRef c)) \<longrightarrow>
              (\<forall>b. \<not> (reaches (heap s2) (PyRef g1) b \<and> reaches (heap s2) (PyRef g2) b))"
    by blast
  from ds have ne: "g1 \<noteq> g2" by simp
  from im i have no: "\<forall>b. \<not> (reaches (heap s2) (PyRef g1) b \<and> reaches (heap s2) (PyRef g2) b)"
    by blast
  from c d c1 c2 m1 m2 ne no show ?thesis by (intro conjI exI [of _ g1] exI [of _ s1] exI [of _ g2] exI [of _ s2]) simp_all
qed

text \<open>
  C8. Every call completes, whatever the argument and the store: it gives an outcome (a
  value or an exception) and a store with exactly two more objects. The body has no
  loop and no recursive call; the only recursion of the model runs over the items of a
  dictionary, in a lookup.
\<close>

theorem generate_crd_terminates:
  "\<exists>r s'. generate_crd arg s = (r, s') \<and> length (heap s') = length (heap s) + 2"
proof -
  have "frame s (snd (generate_crd arg s))" by (rule generate_crd_frame)
  then have "length (heap (snd (generate_crd arg s))) = length (heap s) + 2"
    by (simp add: frame_def)
  then show ?thesis by (cases "generate_crd arg s") auto
qed

text \<open>
  C9. The presence of a key decides, not its value. For a recognised key \<open>k\<close> with the
  default \<open>dflt\<close> and any value \<open>v\<close> (\<^verbatim>\<open>None\<close> and \<open>dflt\<close> itself included),
  \<^verbatim>\<open>generate_crd({k: v})['parameters'][k]\<close> is \<open>v\<close>; and for any dictionary argument,
  the parameter is the argument's value whenever \<open>k\<close> is one of its keys, and the
  default only when \<open>k\<close> is absent.
\<close>

theorem generate_crd_presence:
  assumes "(k, dflt) \<in> set crd_keys"
  shows "(\<exists>ps. returned_model (generate_crd_display [(PyStr k, v)] s) =
              Some (PyStr ''parameters'', ps) \<and> map_of ps (PyStr k) = Some v) \<and>
         (dict_at (heap s') p = Some (a, kvs) \<longrightarrow>
           (\<exists>ps. returned_model (generate_crd (Some p) s') = Some (PyStr ''parameters'', ps) \<and>
              (\<forall>x. map_of kvs (PyStr k) = Some x \<longrightarrow> map_of ps (PyStr k) = Some x) \<and>
              (map_of kvs (PyStr k) = None \<longrightarrow> map_of ps (PyStr k) = Some dflt)))"
proof (intro conjI impI)
  show "\<exists>ps. returned_model (generate_crd_display [(PyStr k, v)] s) =
              Some (PyStr ''parameters'', ps) \<and> map_of ps (PyStr k) = Some v"
    using map_of_merged [OF assms, of "[(PyStr k, v)]"]
    by (simp add: returned_model_display)
next
  assume d: "dict_at (heap s') p = Some (a, kvs)"
  show "\<exists>ps. returned_model (generate_crd (Some p) s') = Some (PyStr ''parameters'', ps) \<and>
              (\<forall>x. map_of kvs (PyStr k) = Some x \<longrightarrow> map_of ps (PyStr k) = Some x) \<and>
              (map_of kvs (PyStr k) = None \<longrightarrow> map_of ps (PyStr k) = Some dflt)"
    using returned_model_on_dict [OF d] map_of_merged [OF assms, of kvs] by auto
qed

theorem generate_crd_presence_witness:
  "(''d'', PyInt (- 10)) \<in> set crd_keys \<and>
   (\<exists>ps. returned_model (generate_crd_display [(PyStr ''d'', PyNone)] (import_core [])) =
              Some (PyStr ''parameters'', ps) \<and> map_of ps (PyStr ''d'') = Some PyNone) \<and>
   dict_at (heap (import_core [DictObj [(PyStr ''d'', PyInt (- 10))]])) (PyRef 0) =
     Some (0, [(PyStr ''d'', PyInt (- 10))]) \<and>
   (\<exists>ps. returned_model
            (generate_crd (Some (PyRef 0)) (import_core [DictObj [(PyStr ''d'', PyInt (- 10))]])) =
          Some (PyStr ''parameters'', ps) \<and> map_of ps (PyStr ''d'') = Some (PyInt (- 10)))"
proof -
  have k: "(''d'', PyInt (- 10)) \<in> set crd_keys" by (simp add: crd_keys_def)
  have h: "dict_at (heap (import_core [DictObj [(PyStr ''d'', PyInt (- 10))]])) (PyRef 0) =
     Some (0, [(PyStr ''d'', PyInt (- 10))])"
    by (simp add: dict_at_def import_core_def)
  from generate_crd_presence [OF k, of PyNone "import_core []"
      "import_core [DictObj [(PyStr ''d'', PyInt (- 10))]]" "PyRef 0" 0 "[(PyStr ''d'', PyInt (- 10))]"]
    k h
  show ?thesis by auto
qed

text \<open>
  C10. No call writes to an object that existed before it, so after any sequence of
  calls, with any arguments, the store the sequence started in is unchanged. In
  particular, after the import and any sequence of calls the default dictionary is
  still the empty dictionary of the \<^verbatim>\<open>def\<close> statement, and a call with no argument
  returns what \<^verbatim>\<open>generate_crd({})\<close> returns: the fully defaulted model.
\<close>

theorem generate_crd_default_kept:
  "take (length (heap s)) (heap (calls args s)) = heap s \<and>
   crd_defaults (calls args s) = crd_defaults s \<and>
   dict_at (heap (calls args (import_core h))) (PyRef (crd_defaults (calls args (import_core h)))) =
     Some (length h, []) \<and>
   returned_model (generate_crd None (calls args (import_core h))) = Some default_model \<and>
   returned_model (generate_crd None (calls args (import_core h))) =
     returned_model (generate_crd_display [] (calls args (import_core h)))"
proof -
  let ?s = "calls args (import_core h)"
  have df: "crd_defaults ?s = length h"
    using calls_frame [of "import_core h" args] by (simp add: import_core_def)
  have "dict_at (heap (import_core h)) (PyRef (length h)) = Some (length h, [])"
    by (simp add: dict_at_def import_core_def)
  with calls_frame [of "import_core h" args]
  have d: "dict_at (heap ?s) (PyRef (crd_defaults ?s)) = Some (crd_defaults ?s, [])"
    unfolding df by (blast intro: take_dict_at)
  have m: "returned_model (generate_crd None ?s) = Some default_model"
    using returned_model_on_dict [OF d]
    by (simp add: generate_crd_no_arg merged_empty default_model_def merged_def crd_keys_def)
  have e: "returned_model (generate_crd_display [] ?s) = Some default_model"
    by (simp add: returned_model_display merged_empty default_model_def merged_def crd_keys_def)
  from calls_frame [of s args] d df m e show ?thesis by simp
qed

end
